theory Spec2Isabelle
  imports Main "HOL-Library.AList" "HOL-Library.Sublist"
begin

section \<open>Values, exceptions and the outside world\<close>

text \<open>
  The module \<^verbatim>\<open>keycloak_auth.py\<close> handles three kinds of Python values that come from
  outside: the JSON document of the certificate endpoint, the header and the payload of
  a token. They are modelled as JSON values; an object is an association list in the
  order of its entries, with one entry per name. Numbers are integers.
\<close>

datatype json =
    JNull
  | JBool bool
  | JNum int
  | JStr string
  | JArr "json list"
  | JObj "(string \<times> json) list"

text \<open>
  The subclasses of \<^verbatim>\<open>jwt.InvalidTokenError\<close> (the only exception that
  \<^verbatim>\<open>verify_token\<close> catches), and the exceptions of the module and of its libraries.
  \<^verbatim>\<open>InvalidKeyError\<close> is a \<^verbatim>\<open>PyJWTError\<close> but not an
  \<^verbatim>\<open>InvalidTokenError\<close>.
\<close>

datatype token_error =
    DecodeError
  | InvalidSignatureError
  | InvalidAlgorithmError
  | ExpiredSignatureError
  | InvalidAudienceError
  | InvalidIssuerError
  | MissingRequiredClaimError string

datatype exn =
    InvalidTokenError token_error
  | InvalidKeyError
  | RequestException
  | HTTPError nat
  | JSONDecodeError
  | KeyError json
  | TypeError
  | AttributeError
  | HTTPException nat string "(string \<times> string) list option"

type_synonym 'a result = "exn + 'a"

type_synonym pydict = "(string \<times> json) list"

text \<open>
  The three functions of the \<^verbatim>\<open>jwt\<close> library that the module calls. They are not
  part of the repository and are parameters of the model. \<^verbatim>\<open>jwt.decode\<close> reads the
  clock; the time of the call is its last argument here. Its other arguments are the
  token, the key, \<^verbatim>\<open>algorithms\<close>, \<^verbatim>\<open>audience\<close> and \<^verbatim>\<open>issuer\<close>.
\<close>

record 'k jwt_lib =
  jwt_get_unverified_header :: "string \<Rightarrow> pydict result"
  jwt_decode :: "string \<Rightarrow> 'k \<Rightarrow> string list \<Rightarrow> string \<Rightarrow> string \<Rightarrow> int \<Rightarrow> pydict result"
  rsa_from_jwk :: "json \<Rightarrow> 'k result"

text \<open>
  What \<^verbatim>\<open>requests.get\<close> gives: no response at all (the call raises), or a response
  with a status code and a body; the body is \<open>None\<close> when it is not JSON, so that
  \<^verbatim>\<open>response.json()\<close> raises.
\<close>

datatype response = NoResponse | Response nat "json option"

text \<open>
  The certificate endpoint: the response to the \<open>n\<close>-th GET (counted from 0) of a URL.
\<close>

type_synonym network = "string \<Rightarrow> nat \<Rightarrow> response"

record config =
  client_id :: string
  base_url :: string
  certs_url :: string

text \<open>
  The mutable state: the attribute \<^verbatim>\<open>_public_keys\<close> (\<open>None\<close> after construction,
  then a dict from key identifiers to keys) and the number of GET requests sent so far.
\<close>

record 'k state =
  public_keys :: "(json \<times> 'k) list option"
  requests_sent :: nat

definition init :: "'k state" where
  "init = \<lparr>public_keys = None, requests_sent = 0\<rparr>"

section \<open>Python's operations on these values\<close>

text \<open>Keys of a dict: lists and dicts are unhashable; \<^verbatim>\<open>True == 1\<close> and \<^verbatim>\<open>False == 0\<close>.\<close>

fun hashable :: "json \<Rightarrow> bool" where
  "hashable (JArr _) = False"
| "hashable (JObj _) = False"
| "hashable _ = True"

fun norm_key :: "json \<Rightarrow> json" where
  "norm_key (JBool b) = JNum (if b then 1 else 0)"
| "norm_key v = v"

text \<open>\<^verbatim>\<open>d[k] = v\<close>\<close>

definition dict_set :: "(json \<times> 'k) list \<Rightarrow> json \<Rightarrow> 'k \<Rightarrow> (json \<times> 'k) list result" where
  "dict_set d k v = (if hashable k then Inr (AList.update (norm_key k) v d) else Inl TypeError)"

text \<open>\<^verbatim>\<open>k in d\<close>, where \<open>d\<close> may be \<open>None\<close>\<close>

definition contains :: "(json \<times> 'k) list option \<Rightarrow> json \<Rightarrow> bool result" where
  "contains d k =
     (case d of
        None \<Rightarrow> Inl TypeError
      | Some kvs \<Rightarrow> if hashable k then Inr (map_of kvs (norm_key k) \<noteq> None) else Inl TypeError)"

text \<open>\<^verbatim>\<open>d[k]\<close>, where \<open>d\<close> may be \<open>None\<close>\<close>

definition getitem :: "(json \<times> 'k) list option \<Rightarrow> json \<Rightarrow> 'k result" where
  "getitem d k =
     (case d of
        None \<Rightarrow> Inl TypeError
      | Some kvs \<Rightarrow>
          if hashable k
          then (case map_of kvs (norm_key k) of None \<Rightarrow> Inl (KeyError k) | Some v \<Rightarrow> Inr v)
          else Inl TypeError)"

text \<open>The truth value of the attribute: \<open>None\<close> and the empty dict are false.\<close>

definition truthy :: "'a list option \<Rightarrow> bool" where
  "truthy d = (case d of None \<Rightarrow> False | Some kvs \<Rightarrow> kvs \<noteq> [])"

text \<open>\<^verbatim>\<open>v[name]\<close> on a JSON value\<close>

definition subscript :: "json \<Rightarrow> string \<Rightarrow> json result" where
  "subscript v name =
     (case v of
        JObj kvs \<Rightarrow> (case map_of kvs name of None \<Rightarrow> Inl (KeyError (JStr name)) | Some x \<Rightarrow> Inr x)
      | _ \<Rightarrow> Inl TypeError)"

text \<open>\<^verbatim>\<open>for x in v\<close>: the elements of a list, the names of a dict, the characters of a string\<close>

definition iterate :: "json \<Rightarrow> json list result" where
  "iterate v =
     (case v of
        JArr xs \<Rightarrow> Inr xs
      | JObj kvs \<Rightarrow> Inr (map (\<lambda>kv. JStr (fst kv)) kvs)
      | JStr s \<Rightarrow> Inr (map (\<lambda>c. JStr [c]) s)
      | _ \<Rightarrow> Inl TypeError)"

text \<open>\<^verbatim>\<open>d.get(name, default)\<close> on a dict\<close>

definition dict_get :: "pydict \<Rightarrow> string \<Rightarrow> json \<Rightarrow> json" where
  "dict_get d name dflt = (case map_of d name of None \<Rightarrow> dflt | Some v \<Rightarrow> v)"

text \<open>\<^verbatim>\<open>v.get(name, default)\<close> on a value: only a dict has the method.\<close>

definition value_get :: "json \<Rightarrow> string \<Rightarrow> json \<Rightarrow> json result" where
  "value_get v name dflt =
     (case v of JObj kvs \<Rightarrow> Inr (dict_get kvs name dflt) | _ \<Rightarrow> Inl AttributeError)"

text \<open>\<^verbatim>\<open>s in v\<close> for a string \<open>s\<close>\<close>

definition str_in :: "string \<Rightarrow> json \<Rightarrow> bool result" where
  "str_in s v =
     (case v of
        JArr xs \<Rightarrow> Inr (JStr s \<in> set xs)
      | JObj kvs \<Rightarrow> Inr (s \<in> fst ` set kvs)
      | JStr t \<Rightarrow> Inr (sublist s t)
      | _ \<Rightarrow> Inl TypeError)"

section \<open>KeycloakAuth\<close>

text \<open>
  The body of the loop of \<^verbatim>\<open>_load_public_keys\<close>, run over the items left:
  \<^verbatim>\<open>self._public_keys[key['kid']] = jwt.algorithms.RSAAlgorithm.from_jwk(key)\<close>.
  Python evaluates the right-hand side first, then the subscript, then stores.
\<close>

fun load_loop :: "'k jwt_lib \<Rightarrow> json list \<Rightarrow> 'k state \<Rightarrow> 'k state \<times> unit result" where
  "load_loop L [] s = (s, Inr ())"
| "load_loop L (key # rest) s =
     (case rsa_from_jwk L key of
        Inl e \<Rightarrow> (s, Inl e)
      | Inr pk \<Rightarrow>
          (case subscript key ''kid'' of
             Inl e \<Rightarrow> (s, Inl e)
           | Inr kid \<Rightarrow>
               (case public_keys s of
                  None \<Rightarrow> (s, Inl TypeError)
                | Some d \<Rightarrow>
                    (case dict_set d kid pk of
                       Inl e \<Rightarrow> (s, Inl e)
                     | Inr d' \<Rightarrow> load_loop L rest (s\<lparr>public_keys := Some d'\<rparr>)))))"

text \<open>\<^verbatim>\<open>response.raise_for_status()\<close> raises for the status codes 400 to 599.\<close>

definition raise_for_status :: "nat \<Rightarrow> unit result" where
  "raise_for_status st = (if 400 \<le> st \<and> st < 600 then Inl (HTTPError st) else Inr ())"

definition load_public_keys ::
  "'k jwt_lib \<Rightarrow> config \<Rightarrow> network \<Rightarrow> 'k state \<Rightarrow> 'k state \<times> unit result" where
  "load_public_keys L cfg net s =
     (let s0 = s\<lparr>requests_sent := Suc (requests_sent s)\<rparr> in
      case net (certs_url cfg) (requests_sent s) of
        NoResponse \<Rightarrow> (s0, Inl RequestException)
      | Response st body \<Rightarrow>
          (case raise_for_status st of
             Inl e \<Rightarrow> (s0, Inl e)
           | Inr _ \<Rightarrow>
               (case body of
                  None \<Rightarrow> (s0, Inl JSONDecodeError)
                | Some jwks \<Rightarrow>
                    (let s1 = s0\<lparr>public_keys := Some []\<rparr> in
                     case subscript jwks ''keys'' of
                       Inl e \<Rightarrow> (s1, Inl e)
                     | Inr ks \<Rightarrow>
                         (case iterate ks of
                            Inl e \<Rightarrow> (s1, Inl e)
                          | Inr items \<Rightarrow> load_loop L items s1)))))"

text \<open>\<^verbatim>\<open>except jwt.InvalidTokenError: return None\<close>; any other exception leaves the function.\<close>

fun handler :: "exn \<Rightarrow> pydict option result" where
  "handler (InvalidTokenError _) = Inr None"
| "handler e = Inl e"

text \<open>
  The end of the \<^verbatim>\<open>try\<close> block: \<^verbatim>\<open>public_key = self._public_keys[key_id]\<close>, then
  \<^verbatim>\<open>jwt.decode\<close> with \<^verbatim>\<open>algorithms=['RS256']\<close>, \<^verbatim>\<open>audience=self.client_id\<close> and
  \<^verbatim>\<open>issuer=self.base_url\<close>.
\<close>

definition decode_with ::
  "'k jwt_lib \<Rightarrow> config \<Rightarrow> int \<Rightarrow> 'k state \<Rightarrow> string \<Rightarrow> json \<Rightarrow> pydict option result" where
  "decode_with L cfg now s token key_id =
     (case getitem (public_keys s) key_id of
        Inl e \<Rightarrow> handler e
      | Inr public_key \<Rightarrow>
          (case jwt_decode L token public_key [''RS256''] (client_id cfg) (base_url cfg) now of
             Inl e \<Rightarrow> handler e
           | Inr payload \<Rightarrow> Inr (Some payload)))"

definition verify_token ::
  "'k jwt_lib \<Rightarrow> config \<Rightarrow> network \<Rightarrow> int \<Rightarrow> 'k state \<Rightarrow> string
     \<Rightarrow> 'k state \<times> pydict option result" where
  "verify_token L cfg net now s token =
     (case (if \<not> truthy (public_keys s) then load_public_keys L cfg net s else (s, Inr ())) of
        (s1, Inl e) \<Rightarrow> (s1, handler e)
      | (s1, Inr _) \<Rightarrow>
          (case jwt_get_unverified_header L token of
             Inl e \<Rightarrow> (s1, handler e)
           | Inr header \<Rightarrow>
               (let key_id = dict_get header ''kid'' JNull in
                case contains (public_keys s1) key_id of
                  Inl e \<Rightarrow> (s1, handler e)
                | Inr True \<Rightarrow> (s1, decode_with L cfg now s1 token key_id)
                | Inr False \<Rightarrow>
                    (case load_public_keys L cfg net s1 of
                       (s2, Inl e) \<Rightarrow> (s2, handler e)
                     | (s2, Inr _) \<Rightarrow>
                         (case contains (public_keys s2) key_id of
                            Inl e \<Rightarrow> (s2, handler e)
                          | Inr False \<Rightarrow> (s2, Inr None)
                          | Inr True \<Rightarrow> (s2, decode_with L cfg now s2 token key_id))))))"

section \<open>The FastAPI dependencies\<close>

text \<open>
  \<^verbatim>\<open>if not payload: raise HTTPException(...)\<close>: the test is true of \<open>None\<close> and of the
  empty dict.
\<close>

definition get_current_user ::
  "'k jwt_lib \<Rightarrow> config \<Rightarrow> network \<Rightarrow> int \<Rightarrow> 'k state \<Rightarrow> string \<Rightarrow> 'k state \<times> pydict result" where
  "get_current_user L cfg net now s token =
     (let rejection =
            HTTPException 401 ''Invalid or expired token'' (Some [(''WWW-Authenticate'', ''Bearer'')])
      in case verify_token L cfg net now s token of
           (s', Inl e) \<Rightarrow> (s', Inl e)
         | (s', Inr None) \<Rightarrow> (s', Inl rejection)
         | (s', Inr (Some payload)) \<Rightarrow>
             if payload = [] then (s', Inl rejection) else (s', Inr payload))"

text \<open>
  \<^verbatim>\<open>require_role(required_role)\<close> returns the function \<^verbatim>\<open>check_role\<close>, which FastAPI
  calls with the result of \<^verbatim>\<open>get_current_user\<close>.
\<close>

definition require_role :: "string \<Rightarrow> pydict \<Rightarrow> pydict result" where
  "require_role required_role current_user =
     (case value_get (dict_get current_user ''realm_access'' (JObj [])) ''roles'' (JArr []) of
        Inl e \<Rightarrow> Inl e
      | Inr user_roles \<Rightarrow>
          (case str_in required_role user_roles of
             Inl e \<Rightarrow> Inl e
           | Inr True \<Rightarrow> Inr current_user
           | Inr False \<Rightarrow>
               Inl (HTTPException 403
                      (''Required role '' @ [CHR 0x27] @ required_role @ [CHR 0x27] @ '' not found'')
                      None)))"

section \<open>What the library checks\<close>

text \<open>
  The checks of \<^verbatim>\<open>jwt.decode\<close> on the claims of a payload, as the specification lists
  them: the audience claim (a string or a list of strings) contains the expected
  audience, the issuer claim equals the expected issuer, the expiry lies strictly after
  the time of the call.
\<close>

definition aud_contains :: "pydict \<Rightarrow> string \<Rightarrow> bool" where
  "aud_contains payload aud =
     (case map_of payload ''aud'' of
        Some (JStr a) \<Rightarrow> a = aud
      | Some (JArr xs) \<Rightarrow> JStr aud \<in> set xs
      | _ \<Rightarrow> False)"

definition iss_equals :: "pydict \<Rightarrow> string \<Rightarrow> bool" where
  "iss_equals payload iss = (map_of payload ''iss'' = Some (JStr iss))"

definition exp_after :: "pydict \<Rightarrow> int \<Rightarrow> bool" where
  "exp_after payload now =
     (case map_of payload ''exp'' of Some (JNum e) \<Rightarrow> now < e | _ \<Rightarrow> False)"

text \<open>
  Modelled from the spec: the contract of \<^verbatim>\<open>jwt.decode\<close>, a function of the PyJWT
  library, whose code is not in the repository. \<open>signed token key alg\<close> says that the
  token carries a valid signature of algorithm \<open>alg\<close> under \<open>key\<close>. A payload is returned
  only for a token signed under the given key with one of the given algorithms, whose
  claims pass the three checks.
\<close>

definition decode_checks :: "'k jwt_lib \<Rightarrow> (string \<Rightarrow> 'k \<Rightarrow> string \<Rightarrow> bool) \<Rightarrow> bool" where
  "decode_checks L signed \<longleftrightarrow>
     (\<forall>token key algs aud iss now payload.
        jwt_decode L token key algs aud iss now = Inr payload \<longrightarrow>
          (\<exists>alg \<in> set algs. signed token key alg) \<and>
          aud_contains payload aud \<and> iss_equals payload iss \<and> exp_after payload now)"

section \<open>A small instance of the library\<close>

text \<open>
  To run the model on concrete requests, a library instance in which the tokens are the
  entries of a table: each has a header, the algorithm and the key (a number) of its
  signature, and its claims. A string outside the table is not a token. Keys are built
  from the entry \<^verbatim>\<open>n\<close> of a JWK.
\<close>

record jws =
  jws_header :: pydict
  jws_alg :: string
  jws_key :: nat
  jws_claims :: pydict

definition table_header :: "(string \<times> jws) list \<Rightarrow> string \<Rightarrow> pydict result" where
  "table_header table token =
     (case map_of table token of
        None \<Rightarrow> Inl (InvalidTokenError DecodeError)
      | Some j \<Rightarrow> Inr (jws_header j))"

definition table_decode ::
  "(string \<times> jws) list \<Rightarrow> string \<Rightarrow> nat \<Rightarrow> string list \<Rightarrow> string \<Rightarrow> string \<Rightarrow> int
     \<Rightarrow> pydict result" where
  "table_decode table token key algs aud iss now =
     (case map_of table token of
        None \<Rightarrow> Inl (InvalidTokenError DecodeError)
      | Some j \<Rightarrow>
          if jws_alg j \<notin> set algs then Inl (InvalidTokenError InvalidAlgorithmError)
          else if jws_key j \<noteq> key then Inl (InvalidTokenError InvalidSignatureError)
          else if \<not> exp_after (jws_claims j) now then Inl (InvalidTokenError ExpiredSignatureError)
          else if \<not> aud_contains (jws_claims j) aud then Inl (InvalidTokenError InvalidAudienceError)
          else if \<not> iss_equals (jws_claims j) iss then Inl (InvalidTokenError InvalidIssuerError)
          else Inr (jws_claims j))"

definition table_from_jwk :: "json \<Rightarrow> nat result" where
  "table_from_jwk key =
     (case key of
        JObj kvs \<Rightarrow> (case map_of kvs ''n'' of Some (JNum n) \<Rightarrow> Inr (nat n) | _ \<Rightarrow> Inl InvalidKeyError)
      | _ \<Rightarrow> Inl InvalidKeyError)"

definition table_jwt :: "(string \<times> jws) list \<Rightarrow> nat jwt_lib" where
  "table_jwt table =
     \<lparr>jwt_get_unverified_header = table_header table,
      jwt_decode = table_decode table,
      rsa_from_jwk = table_from_jwk\<rparr>"

definition table_signed :: "(string \<times> jws) list \<Rightarrow> string \<Rightarrow> nat \<Rightarrow> string \<Rightarrow> bool" where
  "table_signed table token key alg =
     (case map_of table token of None \<Rightarrow> False | Some j \<Rightarrow> jws_alg j = alg \<and> jws_key j = key)"

text \<open>
  A realm with the client \<^verbatim>\<open>3dgs-api-service\<close>, two published keys \<^verbatim>\<open>k1\<close> and
  \<^verbatim>\<open>k2\<close>, and some tokens.
\<close>

definition cfg0 :: config where
  "cfg0 =
     \<lparr>client_id = ''3dgs-api-service'',
      base_url = ''http://localhost:8080/realms/caretwin/'',
      certs_url = ''http://localhost:8080/realms/caretwin/protocol/openid-connect/certs''\<rparr>"

definition jwk :: "string \<Rightarrow> int \<Rightarrow> json" where
  "jwk kid n = JObj [(''kid'', JStr kid), (''kty'', JStr ''RSA''), (''n'', JNum n)]"

definition jwks12 :: response where
  "jwks12 = Response 200 (Some (JObj [(''keys'', JArr [jwk ''k1'' 11, jwk ''k2'' 12])]))"

definition claims0 :: "string \<Rightarrow> pydict" where
  "claims0 aud =
     [(''sub'', JStr ''user-42''), (''iss'', JStr ''http://localhost:8080/realms/caretwin/''),
      (''aud'', JStr aud), (''exp'', JNum 2000),
      (''realm_access'', JObj [(''roles'', JArr [JStr ''api_user''])])]"

definition tokens0 :: "(string \<times> jws) list" where
  "tokens0 =
     [(''tokenA'', \<lparr>jws_header = [(''alg'', JStr ''RS256''), (''kid'', JStr ''k1'')],
                    jws_alg = ''RS256'', jws_key = 11, jws_claims = claims0 ''3dgs-api-service''\<rparr>),
      (''tokenB'', \<lparr>jws_header = [(''alg'', JStr ''RS256''), (''kid'', JStr ''k3'')],
                    jws_alg = ''RS256'', jws_key = 13, jws_claims = claims0 ''3dgs-api-service''\<rparr>),
      (''tokenC'', \<lparr>jws_header = [(''alg'', JStr ''RS256''), (''kid'', JStr ''k2'')],
                    jws_alg = ''RS256'', jws_key = 12, jws_claims = claims0 ''other-service''\<rparr>),
      (''tokenD'', \<lparr>jws_header = [(''alg'', JStr ''RS256'')],
                    jws_alg = ''RS256'', jws_key = 11, jws_claims = claims0 ''3dgs-api-service''\<rparr>),
      (''tokenE'', \<lparr>jws_header = [(''alg'', JStr ''RS256''), (''kid'', JStr ''k1'')],
                    jws_alg = ''RS256'', jws_key = 99, jws_claims = claims0 ''3dgs-api-service''\<rparr>)]"

definition lib0 :: "nat jwt_lib" where
  "lib0 = table_jwt tokens0"

text \<open>The state after the two keys have been loaded by one request.\<close>

definition loaded12 :: "nat state" where
  "loaded12 = \<lparr>public_keys = Some [(JStr ''k1'', 11), (JStr ''k2'', 12)], requests_sent = 1\<rparr>"

text \<open>A state in which only the key \<^verbatim>\<open>k3\<close>, since withdrawn by the provider, is cached.\<close>

definition stale3 :: "nat state" where
  "stale3 = \<lparr>public_keys = Some [(JStr ''k3'', 13)], requests_sent = 1\<rparr>"

text \<open>A library whose \<^verbatim>\<open>decode\<close> accepts every token and returns no claims.\<close>

definition lib_empty :: "nat jwt_lib" where
  "lib_empty = lib0\<lparr>jwt_decode := \<lambda>token key algs aud iss now. Inr []\<rparr>"

text \<open>\<open>kid_of item k\<close>: the item of a key set has the entry \<^verbatim>\<open>kid\<close>, and \<open>k\<close> is its dict key.\<close>

definition kid_of :: "json \<Rightarrow> json \<Rightarrow> bool" where
  "kid_of item k \<longleftrightarrow> (\<exists>kid. subscript item ''kid'' = Inr kid \<and> norm_key kid = k)"

section \<open>The values of the cache during a refresh\<close>




section \<open>Basic facts\<close>

lemma truthy_simps [simp]:
  "truthy None = False" "truthy (Some []) = False" "truthy (Some (x # xs)) = True"
  by (simp_all add: truthy_def)

lemma handler_cases: "handler e = Inr None \<or> handler e = Inl e"
  by (cases e) simp_all

lemma handler_not_Some [simp]: "handler e \<noteq> Inr (Some p)"
  using handler_cases [of e] by auto

lemma decode_with_Some:
  assumes "decode_with L cfg now s token k = Inr (Some p)"
  shows "\<exists>keys key. public_keys s = Some keys \<and> map_of keys (norm_key k) = Some key \<and>
           jwt_decode L token key [''RS256''] (client_id cfg) (base_url cfg) now = Inr p"
  using assms
  by (auto simp add: decode_with_def getitem_def split: option.splits if_splits sum.splits)

lemma verify_token_Some:
  assumes "verify_token L cfg net now s token = (s', Inr (Some p))"
  shows "\<exists>header. jwt_get_unverified_header L token = Inr header \<and>
           decode_with L cfg now s' token (dict_get header ''kid'' JNull) = Inr (Some p)"
  using assms
  by (auto simp add: verify_token_def Let_def split: if_splits prod.splits sum.splits bool.splits)

lemma table_jwt_checks: "decode_checks (table_jwt table) (table_signed table)"
  by (auto simp add: decode_checks_def table_jwt_def table_decode_def table_signed_def
      split: option.splits if_splits)

lemmas model_defs = verify_token_def load_public_keys_def raise_for_status_def subscript_def
  iterate_def dict_set_def dict_get_def contains_def getitem_def decode_with_def
  get_current_user_def require_role_def value_get_def str_in_def

lemmas sample_defs = init_def lib0_def table_jwt_def table_header_def table_decode_def
  table_from_jwk_def cfg0_def jwk_def jwks12_def claims0_def tokens0_def loaded12_def
  aud_contains_def iss_equals_def exp_after_def

lemma load_loop_requests: "requests_sent (fst (load_loop L items s)) = requests_sent s"
  by (induction items arbitrary: s) (auto split: sum.splits option.splits)

lemma load_public_keys_requests:
  "requests_sent (fst (load_public_keys L cfg net s)) = Suc (requests_sent s)"
  by (auto simp add: load_public_keys_def Let_def load_loop_requests
      split: response.splits sum.splits option.splits)

lemma load_public_keys_requests':
  "load_public_keys L cfg net s = (s', r) \<Longrightarrow> requests_sent s' = Suc (requests_sent s)"
  using load_public_keys_requests [of L cfg net s] by simp

lemma load_public_keys_forgets:
  assumes "load_public_keys L cfg net s = (s1, Inr ())"
  shows "load_public_keys L cfg net (s\<lparr>public_keys := old\<rparr>) = (s1, Inr ())"
  using assms
  by (auto simp add: load_public_keys_def Let_def split: response.splits sum.splits option.splits)

lemma contains_True_truthy: "contains c k = Inr True \<Longrightarrow> truthy c"
  by (cases c) (auto simp add: contains_def truthy_def split: if_splits)

lemma verify_token_warm:
  assumes "truthy (public_keys s)" and "jwt_get_unverified_header L token = Inr header"
  shows "verify_token L cfg net now s token =
     (case contains (public_keys s) (dict_get header ''kid'' JNull) of
        Inl e \<Rightarrow> (s, handler e)
      | Inr True \<Rightarrow> (s, decode_with L cfg now s token (dict_get header ''kid'' JNull))
      | Inr False \<Rightarrow>
          (case load_public_keys L cfg net s of
             (s2, Inl e) \<Rightarrow> (s2, handler e)
           | (s2, Inr _) \<Rightarrow>
               (case contains (public_keys s2) (dict_get header ''kid'' JNull) of
                  Inl e \<Rightarrow> (s2, handler e)
                | Inr False \<Rightarrow> (s2, Inr None)
                | Inr True \<Rightarrow> (s2, decode_with L cfg now s2 token (dict_get header ''kid'' JNull)))))"
  using assms by (simp add: verify_token_def Let_def)

lemma verify_token_cold:
  assumes "\<not> truthy (public_keys s)" and "jwt_get_unverified_header L token = Inr header"
    and "load_public_keys L cfg net s = (s1, Inr u)"
  shows "verify_token L cfg net now s token =
     (case contains (public_keys s1) (dict_get header ''kid'' JNull) of
        Inl e \<Rightarrow> (s1, handler e)
      | Inr True \<Rightarrow> (s1, decode_with L cfg now s1 token (dict_get header ''kid'' JNull))
      | Inr False \<Rightarrow>
          (case load_public_keys L cfg net s1 of
             (s2, Inl e) \<Rightarrow> (s2, handler e)
           | (s2, Inr _) \<Rightarrow>
               (case contains (public_keys s2) (dict_get header ''kid'' JNull) of
                  Inl e \<Rightarrow> (s2, handler e)
                | Inr False \<Rightarrow> (s2, Inr None)
                | Inr True \<Rightarrow> (s2, decode_with L cfg now s2 token (dict_get header ''kid'' JNull)))))"
  using assms by (simp add: verify_token_def Let_def)

lemma verify_token_cold_fail:
  assumes "\<not> truthy (public_keys s)" and "load_public_keys L cfg net s = (s1, Inl e)"
  shows "verify_token L cfg net now s token = (s1, handler e)"
  using assms by (simp add: verify_token_def)

lemma requests_after_miss:
  assumes "(case load_public_keys L cfg net s of
             (s2, Inl e) \<Rightarrow> (s2, handler e)
           | (s2, Inr _) \<Rightarrow>
               (case contains (public_keys s2) k of
                  Inl e \<Rightarrow> (s2, handler e)
                | Inr False \<Rightarrow> (s2, Inr None)
                | Inr True \<Rightarrow> (s2, decode_with L cfg now s2 token k))) = (s', r)"
  shows "requests_sent s' = Suc (requests_sent s)"
  using assms load_public_keys_requests [of L cfg net s]
  by (auto split: prod.splits sum.splits bool.splits)

lemma load_loop_Cons_ok:
  assumes "load_loop L (item # items) s = (s', Inr ())" and "public_keys s = Some d"
  shows "\<exists>pk kid. rsa_from_jwk L item = Inr pk \<and> subscript item ''kid'' = Inr kid \<and> hashable kid \<and>
     load_loop L items (s\<lparr>public_keys := Some (AList.update (norm_key kid) pk d)\<rparr>) = (s', Inr ())"
proof (cases "rsa_from_jwk L item")
  case (Inl e)
  with assms show ?thesis by simp
next
  case pk: (Inr pk)
  show ?thesis
  proof (cases "subscript item ''kid''")
    case (Inl e)
    with assms pk show ?thesis by simp
  next
    case (Inr kid)
    with assms pk show ?thesis by (cases "hashable kid") (simp_all add: dict_set_def)
  qed
qed

lemma load_loop_keys:
  assumes "load_loop L items s = (s', Inr ())" and "public_keys s = Some d"
  shows "\<exists>d'. public_keys s' = Some d' \<and>
      (\<forall>k. map_of d' k \<noteq> None \<longleftrightarrow> map_of d k \<noteq> None \<or> (\<exists>item \<in> set items. kid_of item k)) \<and>
      (\<forall>k v. map_of d' k = Some v \<longrightarrow>
         map_of d k = Some v \<or> (\<exists>item \<in> set items. kid_of item k \<and> rsa_from_jwk L item = Inr v))"
  using assms
proof (induction items arbitrary: s d)
  case Nil
  then show ?case by simp
next
  case (Cons item items)
  from load_loop_Cons_ok [OF Cons.prems] obtain pk kid where
    pk: "rsa_from_jwk L item = Inr pk" and kid: "subscript item ''kid'' = Inr kid"
    and h: "hashable kid"
    and rest: "load_loop L items (s\<lparr>public_keys := Some (AList.update (norm_key kid) pk d)\<rparr>) = (s', Inr ())"
    by blast
  from Cons.IH [OF rest] obtain d' where
    d': "public_keys s' = Some d'"
    and dom: "\<forall>k. map_of d' k \<noteq> None \<longleftrightarrow>
        map_of (AList.update (norm_key kid) pk d) k \<noteq> None \<or> (\<exists>item \<in> set items. kid_of item k)"
    and val: "\<forall>k v. map_of d' k = Some v \<longrightarrow>
         map_of (AList.update (norm_key kid) pk d) k = Some v \<or>
         (\<exists>item \<in> set items. kid_of item k \<and> rsa_from_jwk L item = Inr v)"
    by auto
  have k: "kid_of item k \<longleftrightarrow> k = norm_key kid" for k
    using kid by (auto simp add: kid_of_def)
  have upd: "map_of (AList.update (norm_key kid) pk d) k =
      (if k = norm_key kid then Some pk else map_of d k)" for k
    by (simp add: update_conv')
  have "map_of d' k \<noteq> None \<longleftrightarrow> map_of d k \<noteq> None \<or> (\<exists>i \<in> set (item # items). kid_of i k)" for k
    using dom [rule_format, of k] by (auto simp add: upd k)
  moreover have "map_of d k = Some v \<or> (\<exists>i \<in> set (item # items). kid_of i k \<and> rsa_from_jwk L i = Inr v)"
    if "map_of d' k = Some v" for k v
    using val [rule_format, OF that] pk by (auto simp add: upd k split: if_splits)
  ultimately show ?case using d' by blast
qed

lemma load_public_keys_keys:
  assumes "load_public_keys L cfg net s = (s1, Inr ())"
  shows "\<exists>st jwks ks items keys.
      net (certs_url cfg) (requests_sent s) = Response st (Some jwks) \<and>
      subscript jwks ''keys'' = Inr ks \<and> iterate ks = Inr items \<and>
      public_keys s1 = Some keys \<and>
      (\<forall>k. map_of keys k \<noteq> None \<longleftrightarrow> (\<exists>item \<in> set items. kid_of item k)) \<and>
      (\<forall>k v. map_of keys k = Some v \<longrightarrow>
         (\<exists>item \<in> set items. kid_of item k \<and> rsa_from_jwk L item = Inr v))"
proof -
  from assms obtain st jwks ks items where
    r: "net (certs_url cfg) (requests_sent s) = Response st (Some jwks)"
    and ks: "subscript jwks ''keys'' = Inr ks" and it: "iterate ks = Inr items"
    and loop: "load_loop L items (s\<lparr>requests_sent := Suc (requests_sent s), public_keys := Some []\<rparr>) = (s1, Inr ())"
    by (auto simp add: load_public_keys_def Let_def split: response.splits sum.splits option.splits)
  from load_loop_keys [OF loop, of "[]"] r ks it show ?thesis by auto
qed











section \<open>The claims\<close>

subsection \<open>C1\<close>

text \<open>
  C1. \<^verbatim>\<open>verify_token\<close> returns a payload only if the token's header was read, the key
  stored under its \<^verbatim>\<open>kid\<close> is in the cached key set at the end of the call, the token
  carries a valid RS256 signature under that key, the audience claim of the payload
  contains the configured client identifier, its issuer claim equals the configured
  realm base URL, and its expiry lies strictly after the time of the call. So a token
  whose audience does not contain the client identifier is never accepted, whatever its
  signature. The checks on signature and claims are those of \<^verbatim>\<open>jwt.decode\<close>, stated in
  \<open>decode_checks\<close>; the code hands it the cached key, \<^verbatim>\<open>['RS256']\<close>, the client
  identifier and the base URL.
\<close>

theorem verify_token_valid_only_if:
  assumes lib: "decode_checks L signed"
    and valid: "verify_token L cfg net now s token = (s', Inr (Some payload))"
  shows "\<exists>header keys key.
      jwt_get_unverified_header L token = Inr header \<and>
      public_keys s' = Some keys \<and>
      map_of keys (norm_key (dict_get header ''kid'' JNull)) = Some key \<and>
      signed token key ''RS256'' \<and>
      aud_contains payload (client_id cfg) \<and>
      iss_equals payload (base_url cfg) \<and>
      exp_after payload now"
proof -
  from verify_token_Some [OF valid] obtain header where
    h: "jwt_get_unverified_header L token = Inr header"
    and d: "decode_with L cfg now s' token (dict_get header ''kid'' JNull) = Inr (Some payload)"
    by blast
  from decode_with_Some [OF d] obtain keys key where
    k: "public_keys s' = Some keys" "map_of keys (norm_key (dict_get header ''kid'' JNull)) = Some key"
    and dec: "jwt_decode L token key [''RS256''] (client_id cfg) (base_url cfg) now = Inr payload"
    by blast
  from lib dec have "(\<exists>alg \<in> set [''RS256'']. signed token key alg) \<and>
      aud_contains payload (client_id cfg) \<and> iss_equals payload (base_url cfg) \<and>
      exp_after payload now"
    unfolding decode_checks_def by blast
  with h k show ?thesis by auto
qed

lemma run_tokenA:
  "verify_token lib0 cfg0 (\<lambda>_ _. jwks12) 1000 init ''tokenA'' =
     (loaded12, Inr (Some (claims0 ''3dgs-api-service'')))"
  by (simp add: model_defs sample_defs)

lemma lib0_checks: "decode_checks lib0 (table_signed tokens0)"
  unfolding lib0_def by (rule table_jwt_checks)

lemma run_tokenC:
  "verify_token lib0 cfg0 (\<lambda>_ _. jwks12) 1000 loaded12 ''tokenC'' = (loaded12, Inr None)"
  by (simp add: model_defs sample_defs)

text \<open>
  \<^verbatim>\<open>tokenA\<close> is accepted on a cache that has not been loaded yet; \<^verbatim>\<open>tokenC\<close>, signed
  under the cached key \<^verbatim>\<open>k2\<close> but issued for another audience, is refused.
\<close>

theorem verify_token_valid_only_if_witness:
  "decode_checks lib0 (table_signed tokens0) \<and>
   verify_token lib0 cfg0 (\<lambda>_ _. jwks12) 1000 init ''tokenA'' =
     (loaded12, Inr (Some (claims0 ''3dgs-api-service''))) \<and>
   (\<exists>header keys key.
      jwt_get_unverified_header lib0 ''tokenA'' = Inr header \<and>
      public_keys loaded12 = Some keys \<and>
      map_of keys (norm_key (dict_get header ''kid'' JNull)) = Some key \<and>
      table_signed tokens0 ''tokenA'' key ''RS256'' \<and>
      aud_contains (claims0 ''3dgs-api-service'') (client_id cfg0) \<and>
      iss_equals (claims0 ''3dgs-api-service'') (base_url cfg0) \<and>
      exp_after (claims0 ''3dgs-api-service'') 1000) \<and>
   table_signed tokens0 ''tokenC'' 12 ''RS256'' \<and>
   verify_token lib0 cfg0 (\<lambda>_ _. jwks12) 1000 loaded12 ''tokenC'' = (loaded12, Inr None)"
proof -
  have "table_signed tokens0 ''tokenC'' 12 ''RS256''"
    by (simp add: table_signed_def tokens0_def)
  with lib0_checks run_tokenA run_tokenC
    verify_token_valid_only_if [OF lib0_checks run_tokenA]
  show ?thesis by blast
qed

subsection \<open>C2\<close>

text \<open>
  C2, as the code has it. A refresh that fails before the body of the response has been
  parsed (no response, an error status, a body that is not JSON) raises and leaves the
  cached key set as it was.
\<close>

theorem load_public_keys_early_failure:
  assumes "net (certs_url cfg) (requests_sent s) = NoResponse \<or>
     (\<exists>st body. net (certs_url cfg) (requests_sent s) = Response st body \<and>
        (400 \<le> st \<and> st < 600 \<or> body = None))"
  shows "(\<exists>e. snd (load_public_keys L cfg net s) = Inl e) \<and>
      public_keys (fst (load_public_keys L cfg net s)) = public_keys s"
  using assms
  by (auto simp add: load_public_keys_def Let_def raise_for_status_def)

theorem load_public_keys_early_failure_witness:
  "(\<exists>e. snd (load_public_keys lib0 cfg0 (\<lambda>_ _. Response 503 None) loaded12) = Inl e) \<and>
   public_keys (fst (load_public_keys lib0 cfg0 (\<lambda>_ _. Response 503 None) loaded12)) =
     Some [(JStr ''k1'', 11), (JStr ''k2'', 12)] \<and>
   (\<exists>e. snd (load_public_keys lib0 cfg0 (\<lambda>_ _. NoResponse) loaded12) = Inl e) \<and>
   public_keys (fst (load_public_keys lib0 cfg0 (\<lambda>_ _. NoResponse) loaded12)) =
     Some [(JStr ''k1'', 11), (JStr ''k2'', 12)]"
  using load_public_keys_early_failure [of "\<lambda>_ _. Response 503 None" cfg0 loaded12 lib0]
    load_public_keys_early_failure [of "\<lambda>_ _. NoResponse" cfg0 loaded12 lib0]
  by (simp add: loaded12_def)

text \<open>
  The sentence of the specification fails for a response that is JSON but has no entry \<^verbatim>\<open>keys\<close>:
  the refresh raises \<^verbatim>\<open>KeyError\<close>, and the two cached keys are gone.
\<close>

theorem load_public_keys_malformed_clears_cache:
  "load_public_keys lib0 cfg0 (\<lambda>_ _. Response 200 (Some (JObj []))) loaded12 =
     (\<lparr>public_keys = Some [], requests_sent = 2\<rparr>, Inl (KeyError (JStr ''keys''))) \<and>
   public_keys loaded12 = Some [(JStr ''k1'', 11), (JStr ''k2'', 12)]"
  by (simp add: load_public_keys_def Let_def raise_for_status_def loaded12_def subscript_def)

subsection \<open>C3\<close>

text \<open>
  C3, as the code has it. For a token whose header is read: when its \<^verbatim>\<open>kid\<close> is in
  the cache, no request is sent; when the cache is non-empty and the \<^verbatim>\<open>kid\<close> is not in
  it, exactly one; when the cache is unset or empty, one request loads it, and a second
  one follows when the \<^verbatim>\<open>kid\<close> is not among the keys loaded. Once a verification
  has left the \<^verbatim>\<open>kid\<close> in the cache, a later verification of a token with that
  \<^verbatim>\<open>kid\<close> sends none.
\<close>

theorem verify_token_requests:
  assumes hdr: "jwt_get_unverified_header L token = Inr header"
    and res: "verify_token L cfg net now s token = (s', r)"
  shows "(contains (public_keys s) (dict_get header ''kid'' JNull) = Inr True \<longrightarrow>
            requests_sent s' = requests_sent s) \<and>
         (truthy (public_keys s) \<and>
          contains (public_keys s) (dict_get header ''kid'' JNull) = Inr False \<longrightarrow>
            requests_sent s' = requests_sent s + 1) \<and>
         (\<not> truthy (public_keys s) \<longrightarrow>
            (case load_public_keys L cfg net s of
               (s1, Inl e) \<Rightarrow> requests_sent s' = requests_sent s + 1
             | (s1, Inr _) \<Rightarrow>
                 if contains (public_keys s1) (dict_get header ''kid'' JNull) = Inr False
                 then requests_sent s' = requests_sent s + 2
                 else requests_sent s' = requests_sent s + 1)) \<and>
         (\<forall>token2 header2 now2.
            jwt_get_unverified_header L token2 = Inr header2 \<and>
            dict_get header2 ''kid'' JNull = dict_get header ''kid'' JNull \<and>
            contains (public_keys s') (dict_get header ''kid'' JNull) = Inr True \<longrightarrow>
            requests_sent (fst (verify_token L cfg net now2 s' token2)) = requests_sent s')"
proof -
  have hit: "requests_sent (fst (verify_token L cfg net n t tok)) = requests_sent t"
    if "jwt_get_unverified_header L tok = Inr h" 
      and "contains (public_keys t) (dict_get h ''kid'' JNull) = Inr True"
    for n t tok h
    using that contains_True_truthy [OF that(2)]
    by (simp add: verify_token_warm [where header = h])
  have miss: "requests_sent s' = requests_sent s + 1"
    if "truthy (public_keys s)"
      and "contains (public_keys s) (dict_get header ''kid'' JNull) = Inr False"
    using res that
      requests_after_miss [where L=L and cfg=cfg and net=net and s=s and s'=s' and r=r
        and now=now and token=token and k="dict_get header ''kid'' JNull"]
    by (simp add: verify_token_warm [OF that(1) hdr])
  have cold: "(case load_public_keys L cfg net s of
               (s1, Inl e) \<Rightarrow> requests_sent s' = requests_sent s + 1
             | (s1, Inr _) \<Rightarrow>
                 if contains (public_keys s1) (dict_get header ''kid'' JNull) = Inr False
                 then requests_sent s' = requests_sent s + 2
                 else requests_sent s' = requests_sent s + 1)"
    if False: "\<not> truthy (public_keys s)"
  proof -
    obtain s1 r1 where load: "load_public_keys L cfg net s = (s1, r1)"
      by (cases "load_public_keys L cfg net s")
    have s1: "requests_sent s1 = Suc (requests_sent s)"
      using load by (rule load_public_keys_requests')
    show ?thesis
    proof (cases r1)
      case (Inl e)
      with False load res s1 show ?thesis by (simp add: verify_token_cold_fail)
    next
      case (Inr u)
      note c = verify_token_cold [OF False hdr load [unfolded Inr], where now=now]
      show ?thesis
      proof (cases "contains (public_keys s1) (dict_get header ''kid'' JNull)")
        case (Inl e)
        with res c s1 load Inr show ?thesis by simp
      next
        case b: (Inr b)
        show ?thesis
        proof (cases b)
          case True
          with res c s1 load Inr b show ?thesis by simp
        next
          case False
          with res c b
            requests_after_miss [where L=L and cfg=cfg and net=net and s=s1 and s'=s' and r=r
              and now=now and token=token and k="dict_get header ''kid'' JNull"]
          have "requests_sent s' = Suc (requests_sent s1)" by simp
          with s1 load Inr b False show ?thesis by simp
        qed
      qed
    qed
  qed
  have first: "requests_sent s' = requests_sent s"
    if "contains (public_keys s) (dict_get header ''kid'' JNull) = Inr True"
    using hit [OF hdr that, of now] res by simp
  have later: "requests_sent (fst (verify_token L cfg net now2 s' token2)) = requests_sent s'"
    if "jwt_get_unverified_header L token2 = Inr header2"
      and "dict_get header2 ''kid'' JNull = dict_get header ''kid'' JNull"
      and "contains (public_keys s') (dict_get header ''kid'' JNull) = Inr True"
    for token2 header2 now2
    using hit [OF that(1), of s' now2] that(2,3) by simp
  from first miss cold later show ?thesis by blast
qed


lemma load_jwks12:
  "load_public_keys lib0 cfg0 (\<lambda>_ _. jwks12) t =
     (t\<lparr>requests_sent := Suc (requests_sent t),
        public_keys := Some [(JStr ''k1'', 11), (JStr ''k2'', 12)]\<rparr>, Inr ())"
  by (simp add: model_defs sample_defs)

lemma run_tokenB_warm:
  "verify_token lib0 cfg0 (\<lambda>_ _. jwks12) 1000 loaded12 ''tokenB'' =
     (loaded12\<lparr>requests_sent := 2\<rparr>, Inr None)"
  by (simp add: model_defs sample_defs)

lemma run_tokenB_cold:
  "verify_token lib0 cfg0 (\<lambda>_ _. jwks12) 1000 init ''tokenB'' =
     (loaded12\<lparr>requests_sent := 2\<rparr>, Inr None)"
  by (simp add: model_defs sample_defs)

lemma run_tokenA_warm:
  "verify_token lib0 cfg0 (\<lambda>_ _. jwks12) 1000 loaded12 ''tokenA'' =
     (loaded12, Inr (Some (claims0 ''3dgs-api-service'')))"
  by (simp add: model_defs sample_defs)

lemma header_tokenA:
  "jwt_get_unverified_header lib0 ''tokenA'' = Inr [(''alg'', JStr ''RS256''), (''kid'', JStr ''k1'')]"
  by (simp add: sample_defs)

lemma header_tokenB:
  "jwt_get_unverified_header lib0 ''tokenB'' = Inr [(''alg'', JStr ''RS256''), (''kid'', JStr ''k3'')]"
  by (simp add: sample_defs)

lemma header_tokenD:
  "jwt_get_unverified_header lib0 ''tokenD'' = Inr [(''alg'', JStr ''RS256'')]"
  by (simp add: sample_defs)

theorem verify_token_requests_witness:
  "contains (public_keys loaded12) (JStr ''k1'') = Inr True \<and>
   requests_sent (fst (verify_token lib0 cfg0 (\<lambda>_ _. jwks12) 1000 loaded12 ''tokenA'')) =
     requests_sent loaded12 \<and>
   truthy (public_keys loaded12) \<and> contains (public_keys loaded12) (JStr ''k3'') = Inr False \<and>
   requests_sent (fst (verify_token lib0 cfg0 (\<lambda>_ _. jwks12) 1000 loaded12 ''tokenB'')) =
     requests_sent loaded12 + 1 \<and>
   \<not> truthy (public_keys (init :: nat state)) \<and>
   requests_sent (fst (verify_token lib0 cfg0 (\<lambda>_ _. jwks12) 1000 init ''tokenB'')) =
     requests_sent (init :: nat state) + 2 \<and>
   requests_sent (fst (verify_token lib0 cfg0 (\<lambda>_ _. jwks12) 2000 loaded12 ''tokenA'')) =
     requests_sent loaded12"
proof -
  let ?hA = "[(''alg'', JStr ''RS256''), (''kid'', JStr ''k1'')]"
  let ?hB = "[(''alg'', JStr ''RS256''), (''kid'', JStr ''k3'')]"
  have kA: "dict_get ?hA ''kid'' JNull = JStr ''k1''" and kB: "dict_get ?hB ''kid'' JNull = JStr ''k3''"
    by (simp_all add: dict_get_def)
  have hit: "contains (public_keys loaded12) (JStr ''k1'') = Inr True"
    and miss: "truthy (public_keys loaded12)" "contains (public_keys loaded12) (JStr ''k3'') = Inr False"
    and cold: "\<not> truthy (public_keys (init :: nat state))"
    by (simp_all add: contains_def loaded12_def init_def)
  have after_load: "load_public_keys lib0 cfg0 (\<lambda>_ _. jwks12) init =
      (loaded12, Inr ())" "contains (public_keys loaded12) (JStr ''k3'') = Inr False"
    by (simp_all add: load_jwks12 init_def loaded12_def contains_def)
  from verify_token_requests [OF header_tokenA run_tokenA_warm] hit
  have 1: "requests_sent (fst (verify_token lib0 cfg0 (\<lambda>_ _. jwks12) 1000 loaded12 ''tokenA'')) =
     requests_sent loaded12"
    by (simp add: kA run_tokenA_warm)
  from verify_token_requests [OF header_tokenB run_tokenB_warm] miss
  have 2: "requests_sent (fst (verify_token lib0 cfg0 (\<lambda>_ _. jwks12) 1000 loaded12 ''tokenB'')) =
     requests_sent loaded12 + 1"
    by (simp add: kB run_tokenB_warm)
  from verify_token_requests [OF header_tokenB run_tokenB_cold] cold
  have 3: "requests_sent (fst (verify_token lib0 cfg0 (\<lambda>_ _. jwks12) 1000 init ''tokenB'')) =
     requests_sent (init :: nat state) + 2"
    by (simp add: kB run_tokenB_cold after_load)
  from verify_token_requests [OF header_tokenA run_tokenA, THEN conjunct2, THEN conjunct2,
      THEN conjunct2, rule_format, of "''tokenA''" ?hA 2000] hit header_tokenA
  have 4: "requests_sent (fst (verify_token lib0 cfg0 (\<lambda>_ _. jwks12) 2000 loaded12 ''tokenA'')) =
     requests_sent loaded12"
    by (simp add: kA)
  from hit miss cold 1 2 3 4 show ?thesis by blast
qed

text \<open>
  The sentence of the specification fails on a cache that has not been loaded yet: for a token whose
  \<^verbatim>\<open>kid\<close> the provider does not publish, two requests are sent, one to load the cache
  and one after the miss.
\<close>

theorem verify_token_cold_unknown_kid_two_requests:
  "public_keys (init :: nat state) = None \<and>
   jwt_get_unverified_header lib0 ''tokenB'' = Inr [(''alg'', JStr ''RS256''), (''kid'', JStr ''k3'')] \<and>
   verify_token lib0 cfg0 (\<lambda>_ _. jwks12) 1000 init ''tokenB'' =
     (\<lparr>public_keys = Some [(JStr ''k1'', 11), (JStr ''k2'', 12)], requests_sent = 2\<rparr>, Inr None) \<and>
   requests_sent (init :: nat state) = 0"
  by (simp add: run_tokenB_cold header_tokenB) (simp add: init_def loaded12_def)

subsection \<open>C4\<close>

text \<open>
  C4. A refresh that succeeds leaves in the cache exactly the keys of the response: the
  cached identifiers are those of the items fetched, each cached key was built from an
  item with that identifier, and the result is the same whatever the cache held before.
  When the provider no longer publishes a \<^verbatim>\<open>kid\<close> (every refresh from now on succeeds
  and yields a key set without it), the verification of a token with that \<^verbatim>\<open>kid\<close>
  after the refresh returns \<open>None\<close>, whether or not the key was cached before.
\<close>

theorem refresh_replaces_key_set:
  assumes refresh: "load_public_keys L cfg net s = (s1, Inr ())"
  shows "(\<forall>old. load_public_keys L cfg net (s\<lparr>public_keys := old\<rparr>) = (s1, Inr ())) \<and>
     (\<exists>st jwks ks items keys.
        net (certs_url cfg) (requests_sent s) = Response st (Some jwks) \<and>
        subscript jwks ''keys'' = Inr ks \<and> iterate ks = Inr items \<and>
        public_keys s1 = Some keys \<and>
        (\<forall>k. map_of keys k \<noteq> None \<longleftrightarrow> (\<exists>item \<in> set items. kid_of item k)) \<and>
        (\<forall>k v. map_of keys k = Some v \<longrightarrow>
           (\<exists>item \<in> set items. kid_of item k \<and> rsa_from_jwk L item = Inr v))) \<and>
     (\<forall>token header now.
        jwt_get_unverified_header L token = Inr header \<and>
        (\<forall>t. requests_sent s \<le> requests_sent t \<longrightarrow>
           (\<exists>t'. load_public_keys L cfg net t = (t', Inr ()) \<and>
              contains (public_keys t') (dict_get header ''kid'' JNull) = Inr False)) \<longrightarrow>
        (\<exists>s2. verify_token L cfg net now s1 token = (s2, Inr None)))"
proof -
  have rotated: "\<exists>s2. verify_token L cfg net now s1 token = (s2, Inr None)"
    if hdr: "jwt_get_unverified_header L token = Inr header"
      and gone: "\<forall>t. requests_sent s \<le> requests_sent t \<longrightarrow>
           (\<exists>t'. load_public_keys L cfg net t = (t', Inr ()) \<and>
              contains (public_keys t') (dict_get header ''kid'' JNull) = Inr False)"
    for token header now
  proof -
    let ?k = "dict_get header ''kid'' JNull"
    have n1: "requests_sent s1 = Suc (requests_sent s)"
      using refresh by (rule load_public_keys_requests')
    from gone refresh have a1: "contains (public_keys s1) ?k = Inr False"
      by fastforce
    have after_miss: "\<exists>s2. (case load_public_keys L cfg net t of
             (s2, Inl e) \<Rightarrow> (s2, handler e)
           | (s2, Inr _) \<Rightarrow>
               (case contains (public_keys s2) ?k of
                  Inl e \<Rightarrow> (s2, handler e)
                | Inr False \<Rightarrow> (s2, Inr None)
                | Inr True \<Rightarrow> (s2, decode_with L cfg now s2 token ?k))) = (s2, Inr None)"
      if "requests_sent s \<le> requests_sent t" for t
      using gone [rule_format, OF that] by auto
    show ?thesis
    proof (cases "truthy (public_keys s1)")
      case True
      from after_miss [of s1] n1 show ?thesis
        by (simp add: verify_token_warm [OF True hdr] a1)
    next
      case False
      from gone n1 obtain s2 where l2: "load_public_keys L cfg net s1 = (s2, Inr ())"
        and a2: "contains (public_keys s2) ?k = Inr False"
        by (metis Suc_n_not_le_n nat_le_linear)
      have n2: "requests_sent s2 = Suc (requests_sent s1)"
        using l2 by (rule load_public_keys_requests')
      from after_miss [of s2] n1 n2 show ?thesis
        by (simp add: verify_token_cold [OF False hdr l2] a2)
    qed
  qed
  from load_public_keys_forgets [OF refresh] load_public_keys_keys [OF refresh] rotated
  show ?thesis by blast
qed

theorem refresh_replaces_key_set_witness:
  "load_public_keys lib0 cfg0 (\<lambda>_ _. jwks12) stale3 = (loaded12\<lparr>requests_sent := 2\<rparr>, Inr ()) \<and>
   load_public_keys lib0 cfg0 (\<lambda>_ _. jwks12) (stale3\<lparr>public_keys := None\<rparr>) =
     (loaded12\<lparr>requests_sent := 2\<rparr>, Inr ()) \<and>
   (\<exists>s2. verify_token lib0 cfg0 (\<lambda>_ _. jwks12) 1000 (loaded12\<lparr>requests_sent := 2\<rparr>) ''tokenB'' =
      (s2, Inr None))"
proof -
  have r: "load_public_keys lib0 cfg0 (\<lambda>_ _. jwks12) stale3 = (loaded12\<lparr>requests_sent := 2\<rparr>, Inr ())"
    by (simp add: load_jwks12 stale3_def loaded12_def)
  have gone: "\<forall>t. requests_sent stale3 \<le> requests_sent t \<longrightarrow>
       (\<exists>t'. load_public_keys lib0 cfg0 (\<lambda>_ _. jwks12) t = (t', Inr ()) \<and>
          contains (public_keys t')
            (dict_get [(''alg'', JStr ''RS256''), (''kid'', JStr ''k3'')] ''kid'' JNull) = Inr False)"
    by (simp add: load_jwks12 contains_def dict_get_def)
  from refresh_replaces_key_set [OF r] header_tokenB gone r show ?thesis
    by blast
qed


subsection \<open>C5\<close>

text \<open>
  What makes \<^verbatim>\<open>verify_token\<close> return \<open>None\<close> on a loaded cache: a token whose header
  cannot be read, a \<^verbatim>\<open>kid\<close> that a successful refresh does not bring, and a token that
  \<^verbatim>\<open>jwt.decode\<close> refuses, each whatever the subclass of \<^verbatim>\<open>InvalidTokenError\<close>.
\<close>

lemma verify_token_malformed:
  assumes "truthy (public_keys s)"
    and "jwt_get_unverified_header L token = Inl (InvalidTokenError why)"
  shows "verify_token L cfg net now s token = (s, Inr None)"
  using assms by (simp add: verify_token_def)

lemma verify_token_unknown_key:
  assumes "truthy (public_keys s)" and "jwt_get_unverified_header L token = Inr header"
    and "contains (public_keys s) (dict_get header ''kid'' JNull) = Inr False"
    and "load_public_keys L cfg net s = (s1, Inr ())"
    and "contains (public_keys s1) (dict_get header ''kid'' JNull) = Inr False"
  shows "verify_token L cfg net now s token = (s1, Inr None)"
  using assms by (simp add: verify_token_warm)

lemma verify_token_refused:
  assumes "truthy (public_keys s)" and "jwt_get_unverified_header L token = Inr header"
    and "contains (public_keys s) (dict_get header ''kid'' JNull) = Inr True"
    and "getitem (public_keys s) (dict_get header ''kid'' JNull) = Inr key"
    and "jwt_decode L token key [''RS256''] (client_id cfg) (base_url cfg) now =
           Inl (InvalidTokenError why)"
  shows "verify_token L cfg net now s token = (s, Inr None)"
  using assms by (simp add: verify_token_warm decode_with_def)







subsection \<open>C6\<close>

text \<open>
  C6. For a claim set whose \<^verbatim>\<open>realm_access.roles\<close> is a list, the check made by
  \<^verbatim>\<open>require_role(r)\<close> returns the claim set itself when \<open>r\<close> is in the list, and
  otherwise raises an \<^verbatim>\<open>HTTPException\<close> with status 403 whose detail names \<open>r\<close>.
\<close>

theorem require_role_checks_role:
  assumes "map_of current_user ''realm_access'' = Some (JObj realm_access)"
    and "map_of realm_access ''roles'' = Some (JArr roles)"
  shows "require_role r current_user =
     (if JStr r \<in> set roles then Inr current_user
      else Inl (HTTPException 403
                  (''Required role '' @ [CHR 0x27] @ r @ [CHR 0x27] @ '' not found'') None))"
  using assms by (simp add: require_role_def dict_get_def value_get_def str_in_def)

theorem require_role_checks_role_witness:
  "require_role ''api_user'' (claims0 ''3dgs-api-service'') = Inr (claims0 ''3dgs-api-service'') \<and>
   require_role ''admin'' (claims0 ''3dgs-api-service'') =
     Inl (HTTPException 403
            (''Required role '' @ [CHR 0x27] @ ''admin'' @ [CHR 0x27] @ '' not found'') None)"
proof -
  have a: "map_of (claims0 ''3dgs-api-service'') ''realm_access'' =
      Some (JObj [(''roles'', JArr [JStr ''api_user''])])"
    and b: "map_of [(''roles'', JArr [JStr ''api_user''])] ''roles'' = Some (JArr [JStr ''api_user''])"
    by (simp_all add: claims0_def)
  from require_role_checks_role [OF a b, of "''api_user''"]
    require_role_checks_role [OF a b, of "''admin''"]
  show ?thesis by simp
qed

subsection \<open>C7\<close>

text \<open>
  C7, as the code has it. The code has no check of its own for a header without
  \<^verbatim>\<open>kid\<close>: \<^verbatim>\<open>header.get('kid')\<close> is then \<open>None\<close>, which is looked up in the cache
  like any identifier. On a loaded cache that has no key under \<open>None\<close>, one refresh is
  made; when it succeeds and brings no key under \<open>None\<close> either, the result is
  \<open>None\<close>, as for any unknown key.
\<close>

theorem verify_token_without_kid:
  assumes "jwt_get_unverified_header L token = Inr header"
    and "map_of header ''kid'' = None"
    and "truthy (public_keys s)"
    and "contains (public_keys s) JNull = Inr False"
    and "load_public_keys L cfg net s = (s1, Inr ())"
    and "contains (public_keys s1) JNull = Inr False"
  shows "verify_token L cfg net now s token = (s1, Inr None) \<and>
     requests_sent s1 = requests_sent s + 1"
  using assms load_public_keys_requests' [of L cfg net s s1]
  by (simp add: verify_token_warm dict_get_def)

lemma run_tokenD:
  "verify_token lib0 cfg0 (\<lambda>_ _. jwks12) 1000 loaded12 ''tokenD'' =
     (loaded12\<lparr>requests_sent := 2\<rparr>, Inr None)"
  by (simp add: model_defs sample_defs)

theorem verify_token_without_kid_witness:
  "verify_token lib0 cfg0 (\<lambda>_ _. jwks12) 1000 loaded12 ''tokenD'' =
     (loaded12\<lparr>requests_sent := 2\<rparr>, Inr None) \<and>
   requests_sent (loaded12\<lparr>requests_sent := 2\<rparr>) = requests_sent loaded12 + 1"
proof -
  have "map_of [(''alg'', JStr ''RS256'')] ''kid'' = None" by simp
  moreover have "truthy (public_keys loaded12)" "contains (public_keys loaded12) JNull = Inr False"
    by (simp_all add: loaded12_def contains_def)
  moreover have "load_public_keys lib0 cfg0 (\<lambda>_ _. jwks12) loaded12 =
      (loaded12\<lparr>requests_sent := 2\<rparr>, Inr ())"
    by (simp add: load_jwks12 loaded12_def)
  moreover have "contains (public_keys (loaded12\<lparr>requests_sent := 2\<rparr>)) JNull = Inr False"
    by (simp add: loaded12_def contains_def)
  ultimately show ?thesis
    using verify_token_without_kid [OF header_tokenD, of loaded12 cfg0 "\<lambda>_ _. jwks12"
        "loaded12\<lparr>requests_sent := 2\<rparr>" 1000]
    by blast
qed

text \<open>
  The sentence of the specification fails: for the token \<^verbatim>\<open>tokenD\<close>, whose header has no
  \<^verbatim>\<open>kid\<close>, the verification on a loaded cache sends a request to the certificate
  endpoint before it returns \<open>None\<close>.
\<close>

theorem verify_token_without_kid_refreshes:
  "jwt_get_unverified_header lib0 ''tokenD'' = Inr [(''alg'', JStr ''RS256'')] \<and>
   requests_sent loaded12 = 1 \<and>
   verify_token lib0 cfg0 (\<lambda>_ _. jwks12) 1000 loaded12 ''tokenD'' =
     (\<lparr>public_keys = Some [(JStr ''k1'', 11), (JStr ''k2'', 12)], requests_sent = 2\<rparr>, Inr None)"
  by (simp add: header_tokenD run_tokenD) (simp add: loaded12_def)

subsection \<open>C8\<close>





subsection \<open>C9\<close>

text \<open>
  C9. When \<^verbatim>\<open>verify_token\<close> returns the empty dict, \<^verbatim>\<open>get_current_user\<close> raises the
  same 401 as for \<open>None\<close>: the test is \<^verbatim>\<open>not payload\<close>.
\<close>

theorem get_current_user_empty_payload:
  assumes "verify_token L cfg net now s token = (s', Inr (Some []))"
  shows "get_current_user L cfg net now s token =
     (s', Inl (HTTPException 401 ''Invalid or expired token''
                 (Some [(''WWW-Authenticate'', ''Bearer'')])))"
  using assms by (simp add: get_current_user_def)

lemma run_empty:
  "verify_token lib_empty cfg0 (\<lambda>_ _. jwks12) 1000 loaded12 ''tokenA'' = (loaded12, Inr (Some []))"
  by (simp add: lib_empty_def model_defs sample_defs)

theorem get_current_user_empty_payload_witness:
  "verify_token lib_empty cfg0 (\<lambda>_ _. jwks12) 1000 loaded12 ''tokenA'' = (loaded12, Inr (Some [])) \<and>
   get_current_user lib_empty cfg0 (\<lambda>_ _. jwks12) 1000 loaded12 ''tokenA'' =
     (loaded12, Inl (HTTPException 401 ''Invalid or expired token''
                       (Some [(''WWW-Authenticate'', ''Bearer'')])))"
  using run_empty get_current_user_empty_payload [OF run_empty] by simp

subsection \<open>C10\<close>

text \<open>
  C10. For a claim set without \<^verbatim>\<open>realm_access\<close>, or whose \<^verbatim>\<open>realm_access\<close> is a dict
  without \<^verbatim>\<open>roles\<close>, the check made by \<^verbatim>\<open>require_role(r)\<close> raises the
  \<^verbatim>\<open>HTTPException\<close> with status 403 for every \<open>r\<close>, and no \<^verbatim>\<open>KeyError\<close>.
\<close>

theorem require_role_no_roles:
  assumes "map_of current_user ''realm_access'' = None \<or>
     (\<exists>realm_access. map_of current_user ''realm_access'' = Some (JObj realm_access) \<and>
        map_of realm_access ''roles'' = None)"
  shows "require_role r current_user =
     Inl (HTTPException 403
            (''Required role '' @ [CHR 0x27] @ r @ [CHR 0x27] @ '' not found'') None)"
  using assms by (auto simp add: require_role_def dict_get_def value_get_def str_in_def)

theorem require_role_no_roles_witness:
  "require_role ''admin'' [(''sub'', JStr ''user-42'')] =
     Inl (HTTPException 403
            (''Required role '' @ [CHR 0x27] @ ''admin'' @ [CHR 0x27] @ '' not found'') None) \<and>
   require_role ''admin'' [(''sub'', JStr ''user-42''), (''realm_access'', JObj [])] =
     Inl (HTTPException 403
            (''Required role '' @ [CHR 0x27] @ ''admin'' @ [CHR 0x27] @ '' not found'') None)"
proof -
  have a: "map_of [(''sub'', JStr ''user-42'')] ''realm_access'' = None \<or>
     (\<exists>realm_access. map_of [(''sub'', JStr ''user-42'')] ''realm_access'' = Some (JObj realm_access) \<and>
        map_of realm_access ''roles'' = None)"
    by simp
  have b: "map_of [(''sub'', JStr ''user-42''), (''realm_access'', JObj [])] ''realm_access'' = None \<or>
     (\<exists>realm_access. map_of [(''sub'', JStr ''user-42''), (''realm_access'', JObj [])] ''realm_access''
          = Some (JObj realm_access) \<and> map_of realm_access ''roles'' = None)"
    by simp
  from require_role_no_roles [OF a, of "''admin''"] require_role_no_roles [OF b, of "''admin''"]
  show ?thesis by simp
qed

end
